theory Spec2Isabelle
  imports Complex_Main
begin

section \<open>Data model of the broadcast server\<close>

text \<open>
  The relay server is one TypeScript module: a configuration object, three process-wide
  maps (\<open>clients\<close>, \<open>ipConnectionCounts\<close>, \<open>sessionTokens\<close>), the held
  snapshot (\<open>lastState\<close>, \<open>lastTimestamp\<close>) and a handful of handlers that run
  to completion on one thread. Each handler is modelled as a function from the state
  before to the state after (explicit state passing); the clock reading \<open>Date.now()\<close>
  is an argument, in integer milliseconds.

  JavaScript strings are \<open>string\<close>; an optional value (\<open>undefined\<close>, \<open>null\<close>)
  is \<open>None\<close>. Header values reach the code decoded as latin1, one character per byte.
\<close>

record ServerConfig =
  allowedOrigins :: "string list"
  allowSameHostDifferentPort :: "bool option"
  pollIntervalMs :: int
  maxConnectionsPerIp :: int
  maxTotalConnections :: int
  trustProxy :: bool
  idleTimeoutMs :: int
  cfg_sessionTokenTtlMs :: "int option"

text \<open>
  An incoming HTTP request: the fields the handlers read. A header field is \<open>Some v\<close>
  exactly when \<open>typeof req.headers[name] === 'string'\<close>.
\<close>

record IncomingMessage =
  req_method :: "string option"
  req_url :: "string option"
  hdr_origin :: "string option"
  hdr_host :: "string option"
  hdr_cf_connecting_ip :: "string option"
  hdr_x_real_ip :: "string option"
  hdr_x_forwarded_for :: "string option"
  remoteAddress :: "string option"

subsection \<open>String helpers of the platform\<close>

text \<open>
  \<open>String.prototype.trim\<close> on a latin1 string: the white space and line terminator
  code points below 256 are TAB, LF, VT, FF, CR, SPACE and NBSP.
\<close>

definition isWhiteSpace :: "char \<Rightarrow> bool" where
  "isWhiteSpace c = (of_char c \<in> {9, 10, 11, 12, 13, 32, 160 :: nat})"

definition trim :: "string \<Rightarrow> string" where
  "trim s = rev (dropWhile isWhiteSpace (rev (dropWhile isWhiteSpace s)))"

text \<open>\<open>s.split(',')[0]\<close>: the part of \<open>s\<close> before its first comma.\<close>

definition splitCommaFirst :: "string \<Rightarrow> string" where
  "splitCommaFirst s = takeWhile (\<lambda>c. c \<noteq> CHR '','') s"

text \<open>Truthiness of an optional string: defined and not empty.\<close>

definition truthy :: "string option \<Rightarrow> bool" where
  "truthy v = (case v of None \<Rightarrow> False | Some s \<Rightarrow> s \<noteq> [])"

subsection \<open>Client IP detection\<close>

definition getClientIp :: "ServerConfig \<Rightarrow> IncomingMessage \<Rightarrow> string" where
  "getClientIp config req =
     (let fromSocket = (case remoteAddress req of None \<Rightarrow> ''unknown'' | Some a \<Rightarrow> a);
          fromForwarded =
            (case hdr_x_forwarded_for req of
               Some forwarded \<Rightarrow> trim (splitCommaFirst forwarded)
             | None \<Rightarrow> fromSocket);
          fromRealIp =
            (case hdr_x_real_ip req of
               Some xRealIp \<Rightarrow> if trim xRealIp \<noteq> [] then trim xRealIp else fromForwarded
             | None \<Rightarrow> fromForwarded)
      in if trustProxy config then
           (case hdr_cf_connecting_ip req of
              Some cfConnectingIp \<Rightarrow>
                if trim cfConnectingIp \<noteq> [] then trim cfConnectingIp else fromRealIp
            | None \<Rightarrow> fromRealIp)
         else fromSocket)"

subsection \<open>Origin and host allow-lists\<close>

text \<open>
  The platform's URL parser is not part of the repository. The functions that call
  \<open>new URL(input)\<close> or \<open>new URL(input, base)\<close> take it as the parameter
  \<open>newURL\<close>: \<open>None\<close> when the constructor throws, otherwise the fields the code reads.
\<close>

record URL =
  protocol :: string
  hostname :: string
  pathname :: string
  searchParams :: "(string \<times> string) list"

type_synonym url_parser = "string \<Rightarrow> string option \<Rightarrow> URL option"

text \<open>\<open>toLowerCase\<close> on a hostname, which the URL parser returns in ASCII.\<close>

definition toLowerCase :: "string \<Rightarrow> string" where
  "toLowerCase s =
     map (\<lambda>c. let n = (of_char c :: nat) in if 65 \<le> n \<and> n \<le> 90 then char_of (n + 32) else c) s"

text \<open>
  The loop of \<open>isOriginAllowed\<close> over the allow-list: an entry that does not parse is
  skipped (the \<open>catch\<close> is empty), the first entry with the origin's scheme and hostname
  returns \<open>true\<close>.
\<close>

fun sameSchemeHostEntry :: "url_parser \<Rightarrow> URL \<Rightarrow> string list \<Rightarrow> bool" where
  "sameSchemeHostEntry newURL originUrl [] = False"
| "sameSchemeHostEntry newURL originUrl (allowedOrigin # rest) =
     (case newURL allowedOrigin None of
        None \<Rightarrow> sameSchemeHostEntry newURL originUrl rest
      | Some allowedUrl \<Rightarrow>
          if protocol allowedUrl = protocol originUrl \<and> hostname allowedUrl = hostname originUrl
          then True
          else sameSchemeHostEntry newURL originUrl rest)"

definition isOriginAllowed :: "url_parser \<Rightarrow> ServerConfig \<Rightarrow> string option \<Rightarrow> bool" where
  "isOriginAllowed newURL config originHeader =
     (if allowedOrigins config = [] then True
      else case originHeader of
        None \<Rightarrow> False
      | Some origin \<Rightarrow>
          if origin = [] then False
          else if origin \<in> set (allowedOrigins config) then True
          else if allowSameHostDifferentPort config \<noteq> Some True then False
          else (case newURL origin None of
                  None \<Rightarrow> False
                | Some originUrl \<Rightarrow> sameSchemeHostEntry newURL originUrl (allowedOrigins config)))"

definition extractHostname :: "url_parser \<Rightarrow> string \<Rightarrow> string option" where
  "extractHostname newURL v =
     (case newURL (''http://'' @ v) None of
        None \<Rightarrow> None
      | Some parsed \<Rightarrow> Some (toLowerCase (hostname parsed)))"

fun sameHostEntry :: "url_parser \<Rightarrow> string \<Rightarrow> string list \<Rightarrow> bool" where
  "sameHostEntry newURL requestHost [] = False"
| "sameHostEntry newURL requestHost (allowedOrigin # rest) =
     (case newURL allowedOrigin None of
        None \<Rightarrow> sameHostEntry newURL requestHost rest
      | Some allowedUrl \<Rightarrow>
          if toLowerCase (hostname allowedUrl) = requestHost then True
          else sameHostEntry newURL requestHost rest)"

definition isHostAllowed :: "url_parser \<Rightarrow> ServerConfig \<Rightarrow> string option \<Rightarrow> bool" where
  "isHostAllowed newURL config hostHeader =
     (if allowedOrigins config = [] then True
      else case hostHeader of
        None \<Rightarrow> False
      | Some h \<Rightarrow>
          if h = [] then False
          else (case extractHostname newURL h of
                  None \<Rightarrow> False
                | Some requestHost \<Rightarrow>
                    if requestHost = [] then False
                    else sameHostEntry newURL requestHost (allowedOrigins config)))"

definition isSessionRequestAllowed ::
  "url_parser \<Rightarrow> ServerConfig \<Rightarrow> IncomingMessage \<Rightarrow> string option \<Rightarrow> bool" where
  "isSessionRequestAllowed newURL config req originHeader =
     (if isOriginAllowed newURL config originHeader then True
      else if \<not> truthy originHeader then isHostAllowed newURL config (hdr_host req)
      else False)"

subsection \<open>Server state\<close>

text \<open>
  A socket object is identified by a number. \<open>clients\<close> is a JavaScript \<open>Map\<close>, which
  keeps insertion order: an association list with one entry per key. The two other maps
  are only read by key and swept, so they are partial functions. \<open>listeners\<close> records
  the close listener each socket carries: the \<open>ip\<close> its closure captured.
\<close>

type_synonym WebSocket = nat

record ClientConnection =
  c_ws :: WebSocket
  c_ip :: string
  connectedAt :: int
  lastPongAt :: int

record SessionTokenState =
  t_ip :: string
  t_origin :: string
  expiresAt :: int

record ServerState =
  clients :: "(WebSocket \<times> ClientConnection) list"
  ipConnectionCounts :: "string \<rightharpoonup> int"
  sessionTokens :: "string \<rightharpoonup> SessionTokenState"
  lastState :: string
  lastTimestamp :: real
  listeners :: "WebSocket \<rightharpoonup> string"

definition sessionTokenTtlMs :: "ServerConfig \<Rightarrow> int" where
  "sessionTokenTtlMs config =
     max 5000 (case cfg_sessionTokenTtlMs config of None \<Rightarrow> 30000 | Some t \<Rightarrow> t)"

definition cleanExpiredSessionTokens :: "int \<Rightarrow> ServerState \<Rightarrow> ServerState" where
  "cleanExpiredSessionTokens now st =
     st\<lparr>sessionTokens :=
          (\<lambda>token. case sessionTokens st token of
                      None \<Rightarrow> None
                    | Some v \<Rightarrow> if expiresAt v \<le> now then None else Some v)\<rparr>"

subsection \<open>The HTTP request handler\<close>

datatype body = NoBody | ErrorPayload string | SessionTokenPayload string int

record ServerResponse =
  statusCode :: nat
  accessControlAllowOrigin :: "string option"
  payload :: body

definition setCorsHeaders :: "url_parser \<Rightarrow> ServerConfig \<Rightarrow> string option \<Rightarrow> string option" where
  "setCorsHeaders newURL config originHeader =
     (if \<not> truthy originHeader \<or> \<not> isOriginAllowed newURL config originHeader then None
      else originHeader)"

definition requestUrlOf :: "url_parser \<Rightarrow> IncomingMessage \<Rightarrow> URL option" where
  "requestUrlOf newURL req =
     newURL (case req_url req of None \<Rightarrow> ''/'' | Some u \<Rightarrow> u)
            (Some (''http://'' @ (case hdr_host req of None \<Rightarrow> ''localhost'' | Some h \<Rightarrow> h)))"

text \<open>
  The body of the \<open>GET /session-token\<close> branch once the request is allowed: the token
  is \<open>randomBytes(24).toString('hex')\<close>, here the argument \<open>token\<close>; \<open>now\<close> is the
  clock when \<open>expiresAt\<close> is computed, \<open>sweepNow\<close> the clock read inside
  \<open>cleanExpiredSessionTokens\<close>, called after the insertion.
\<close>

definition issueSessionToken ::
  "ServerConfig \<Rightarrow> string \<Rightarrow> int \<Rightarrow> int \<Rightarrow> string \<Rightarrow> string option \<Rightarrow> ServerState
     \<Rightarrow> (string \<times> int) \<times> ServerState" where
  "issueSessionToken config token now sweepNow ip originHeader st =
     (let expires = now + sessionTokenTtlMs config;
          st1 = st\<lparr>sessionTokens := (sessionTokens st)
                   (token \<mapsto> \<lparr>t_ip = ip,
                              t_origin = (case originHeader of None \<Rightarrow> [] | Some origin \<Rightarrow> origin),
                              expiresAt = expires\<rparr>)\<rparr>
      in ((token, expires), cleanExpiredSessionTokens sweepNow st1))"

text \<open>
  The request handler. The URL constructor is called outside any \<open>try\<close>: when it throws
  the handler does not return a response (\<open>None\<close>).
\<close>

definition requestHandler ::
  "url_parser \<Rightarrow> ServerConfig \<Rightarrow> string \<Rightarrow> int \<Rightarrow> int \<Rightarrow> IncomingMessage \<Rightarrow> ServerState
     \<Rightarrow> (ServerResponse \<times> ServerState) option" where
  "requestHandler newURL config token now sweepNow req st =
     (let httpMethod = (case req_method req of None \<Rightarrow> ''GET'' | Some m \<Rightarrow> m);
          originHeader = hdr_origin req;
          cors = setCorsHeaders newURL config originHeader
      in if httpMethod = ''OPTIONS'' then
           Some (\<lparr>statusCode = 204, accessControlAllowOrigin = cors, payload = NoBody\<rparr>, st)
         else case requestUrlOf newURL req of
           None \<Rightarrow> None
         | Some requestUrl \<Rightarrow>
             if httpMethod = ''GET'' \<and> pathname requestUrl = ''/session-token'' then
               (if \<not> isSessionRequestAllowed newURL config req originHeader then
                  Some (\<lparr>statusCode = 403, accessControlAllowOrigin = cors,
                         payload = ErrorPayload ''Origin not allowed''\<rparr>, st)
                else
                  (case issueSessionToken config token now sweepNow (getClientIp config req)
                          originHeader st of
                     ((tok, expires), st') \<Rightarrow>
                       Some (\<lparr>statusCode = 200, accessControlAllowOrigin = cors,
                              payload = SessionTokenPayload tok expires\<rparr>, st')))
             else
               Some (\<lparr>statusCode = 404, accessControlAllowOrigin = cors,
                      payload = ErrorPayload ''Not Found''\<rparr>, st))"

subsection \<open>The upgrade handshake\<close>

text \<open>
  \<open>Rejected status message\<close> is a call of \<open>rejectUpgrade\<close>; \<open>HandleUpgrade\<close> is the
  hand-over to \<open>wss.handleUpgrade\<close>. Each rejection also writes a \<open>console.warn\<close>
  line, which the model leaves out.
\<close>

datatype upgrade_outcome = Rejected nat string | HandleUpgrade

text \<open>The two capacity checks; \<open>None\<close> when the handshake goes on.\<close>

definition admitNewConnection :: "ServerConfig \<Rightarrow> string \<Rightarrow> ServerState \<Rightarrow> upgrade_outcome option" where
  "admitNewConnection config ip st =
     (if maxTotalConnections config \<le> int (length (clients st)) then
        Some (Rejected 503 ''Server at capacity'')
      else
        let currentCount = (case ipConnectionCounts st ip of None \<Rightarrow> 0 | Some n \<Rightarrow> n)
        in if maxConnectionsPerIp config \<le> currentCount then
             Some (Rejected 429 ''Too many connections'')
           else None)"

text \<open>
  The checks on the \<open>sessionToken\<close> query parameter, in the order of the source;
  \<open>now\<close> is the clock read at the expiry check.
\<close>

definition validateSessionToken ::
  "int \<Rightarrow> string option \<Rightarrow> string \<Rightarrow> string option \<Rightarrow> ServerState
     \<Rightarrow> upgrade_outcome \<times> ServerState" where
  "validateSessionToken now sessionToken ip originHeader st =
     (case sessionToken of
        None \<Rightarrow> (Rejected 401 ''Missing session token'', st)
      | Some tok \<Rightarrow>
          if tok = [] then (Rejected 401 ''Missing session token'', st)
          else (case sessionTokens st tok of
             None \<Rightarrow> (Rejected 401 ''Invalid session token'', st)
           | Some session \<Rightarrow>
               if expiresAt session \<le> now then
                 (Rejected 401 ''Session token expired'',
                  st\<lparr>sessionTokens := (sessionTokens st)(tok := None)\<rparr>)
               else if t_ip session \<noteq> ip then
                 (Rejected 401 ''Session token mismatch'',
                  st\<lparr>sessionTokens := (sessionTokens st)(tok := None)\<rparr>)
               else if t_origin session \<noteq> [] \<and> truthy originHeader
                       \<and> Some (t_origin session) \<noteq> originHeader then
                 (Rejected 401 ''Session token origin mismatch'',
                  st\<lparr>sessionTokens := (sessionTokens st)(tok := None)\<rparr>)
               else (HandleUpgrade, st)))"

definition upgrade ::
  "url_parser \<Rightarrow> ServerConfig \<Rightarrow> int \<Rightarrow> IncomingMessage \<Rightarrow> ServerState
     \<Rightarrow> upgrade_outcome \<times> ServerState" where
  "upgrade newURL config now req st =
     (let originHeader = hdr_origin req;
          ip = getClientIp config req
      in if \<not> isOriginAllowed newURL config originHeader then
           (Rejected 403 ''Origin not allowed'', st)
         else case admitNewConnection config ip st of
           Some rejection \<Rightarrow> (rejection, st)
         | None \<Rightarrow>
             (case requestUrlOf newURL req of
                None \<Rightarrow> (Rejected 400 ''Bad request'', st)
              | Some requestUrl \<Rightarrow>
                  validateSessionToken now (map_of (searchParams requestUrl) ''sessionToken'')
                    ip originHeader st))"

subsection \<open>Registry of connections\<close>

text \<open>\<open>Map.prototype.set\<close> and \<open>delete\<close> on the insertion-ordered \<open>clients\<close> map.\<close>

fun mapSet :: "('k \<times> 'v) list \<Rightarrow> 'k \<Rightarrow> 'v \<Rightarrow> ('k \<times> 'v) list" where
  "mapSet [] k v = [(k, v)]"
| "mapSet ((k', v') # rest) k v =
     (if k' = k then (k, v) # rest else (k', v') # mapSet rest k v)"

definition mapDelete :: "('k \<times> 'v) list \<Rightarrow> 'k \<Rightarrow> ('k \<times> 'v) list" where
  "mapDelete m k = filter (\<lambda>entry. fst entry \<noteq> k) m"

text \<open>The two statements under \<open>// Track connection\<close> of the connection handler.\<close>

definition register :: "WebSocket \<Rightarrow> string \<Rightarrow> int \<Rightarrow> ServerState \<Rightarrow> ServerState" where
  "register sock ip now st =
     st\<lparr>clients := mapSet (clients st) sock
                      \<lparr>c_ws = sock, c_ip = ip, connectedAt = now, lastPongAt = now\<rparr>,
        ipConnectionCounts := (ipConnectionCounts st)
          (ip \<mapsto> (case ipConnectionCounts st ip of None \<Rightarrow> 0 | Some n \<Rightarrow> n) + 1)\<rparr>"

text \<open>
  The close listener of a socket, with the \<open>ip\<close> of its closure. Its \<open>console.log\<close>
  line is left out.
\<close>

definition onClose :: "WebSocket \<Rightarrow> string \<Rightarrow> ServerState \<Rightarrow> ServerState" where
  "onClose sock ip st =
     (let newCount = (case ipConnectionCounts st ip of None \<Rightarrow> 1 | Some n \<Rightarrow> n) - 1
      in st\<lparr>clients := mapDelete (clients st) sock,
            ipConnectionCounts :=
              (if newCount \<le> 0 then (ipConnectionCounts st)(ip := None)
               else (ipConnectionCounts st)(ip \<mapsto> newCount))\<rparr>)"

text \<open>
  A socket emits \<open>close\<close> once: the listener attached by the connection handler runs,
  if there is one, and the socket is gone.
\<close>

definition socketClosed :: "WebSocket \<Rightarrow> ServerState \<Rightarrow> ServerState" where
  "socketClosed sock st =
     (case listeners st sock of
        None \<Rightarrow> st
      | Some ip \<Rightarrow> (onClose sock ip st)\<lparr>listeners := (listeners st)(sock := None)\<rparr>)"

subsection \<open>Messages and the connection handler\<close>

record WelcomePayload =
  wp_type :: string
  wp_message :: string
  wp_mapDimensions :: "int \<times> int"
  wp_updateIntervalMs :: int

text \<open>
  What a handler does besides changing the state, in order: a frame handed to
  \<open>ws.send\<close> that returned normally, and console lines. A frame is the
  \<open>JSON.stringify\<close> of a welcome object or a string sent as it is. Console texts are
  kept up to the ip; the numbers some of them end with are left out.
\<close>

datatype frame = JsonOf WelcomePayload | Raw string

datatype effect = Send WebSocket frame | ConsoleLog string | ConsoleWarn string | ConsoleError string

datatype completion = Returned | Threw

definition welcomePayload :: "ServerConfig \<Rightarrow> WelcomePayload" where
  "welcomePayload config =
     \<lparr>wp_type = ''welcome'', wp_message = ''Connected to Guild War Broadcast'',
      wp_mapDimensions = (4800, 3000), wp_updateIntervalMs = pollIntervalMs config\<rparr>"

text \<open>
  The connection handler. \<open>sendThrows sock f\<close> tells whether \<open>ws.send\<close> throws on
  that socket and frame. The two sends stand outside any \<open>try\<close>: when one throws, the
  handler ends there (\<open>Threw\<close>), before the listeners are attached.
\<close>

definition connection ::
  "ServerConfig \<Rightarrow> (WebSocket \<Rightarrow> frame \<Rightarrow> bool) \<Rightarrow> int \<Rightarrow> WebSocket \<Rightarrow> IncomingMessage \<Rightarrow> ServerState
     \<Rightarrow> completion \<times> effect list \<times> ServerState" where
  "connection config sendThrows now sock req st =
     (let ip = getClientIp config req;
          st1 = register sock ip now st;
          connected = ConsoleLog (''Client connected: '' @ ip);
          hello = JsonOf (welcomePayload config);
          snapshot = Raw (lastState st1)
      in if sendThrows sock hello then (Threw, [connected], st1)
         else if sendThrows sock snapshot then (Threw, [connected, Send sock hello], st1)
         else (Returned, [connected, Send sock hello, Send sock snapshot],
               st1\<lparr>listeners := (listeners st1)(sock \<mapsto> ip)\<rparr>))"

subsection \<open>Broadcast and the state file poller\<close>

text \<open>
  \<open>isOpen sock\<close> is \<open>ws.readyState === ws.OPEN\<close>. A send that throws is caught and
  logged, and the loop goes on.
\<close>

fun broadcastLoop ::
  "(WebSocket \<Rightarrow> bool) \<Rightarrow> (WebSocket \<Rightarrow> frame \<Rightarrow> bool) \<Rightarrow> string
     \<Rightarrow> (WebSocket \<times> ClientConnection) list \<Rightarrow> effect list" where
  "broadcastLoop isOpen sendThrows json [] = []"
| "broadcastLoop isOpen sendThrows json ((sock, client) # rest) =
     (if isOpen sock then
        (if sendThrows sock (Raw json) then [ConsoleError (''Failed to send to '' @ c_ip client)]
         else [Send sock (Raw json)])
      else [])
     @ broadcastLoop isOpen sendThrows json rest"

definition broadcastToClients ::
  "(WebSocket \<Rightarrow> bool) \<Rightarrow> (WebSocket \<Rightarrow> frame \<Rightarrow> bool) \<Rightarrow> string \<Rightarrow> ServerState \<Rightarrow> effect list" where
  "broadcastToClients isOpen sendThrows json st = broadcastLoop isOpen sendThrows json (clients st)"

text \<open>
  A value returned by \<open>JSON.parse\<close>. \<open>JNonFinite\<close> is a number that is not finite
  (\<open>1e999\<close> parses to \<open>Infinity\<close>); an object is the list of its own properties.
\<close>

datatype json =
    JNull
  | JBool bool
  | JNumber real
  | JNonFinite
  | JString string
  | JArray "json list"
  | JObject "(string \<times> json) list"

definition isObject :: "json \<Rightarrow> bool" where
  "isObject v = (case v of JObject _ \<Rightarrow> True | JArray _ \<Rightarrow> True | _ \<Rightarrow> False)"

text \<open>
  Reading one of the properties the validator names (\<open>type\<close>, \<open>timestamp\<close>,
  \<open>instances\<close>, \<open>mapDimensions\<close>, \<open>width\<close>, \<open>height\<close>): an array has none of them.
\<close>

definition getProp :: "json \<Rightarrow> string \<Rightarrow> json option" where
  "getProp v k = (case v of JObject kvs \<Rightarrow> map_of kvs k | _ \<Rightarrow> None)"

definition isNumberTyped :: "json option \<Rightarrow> bool" where
  "isNumberTyped v = (case v of Some (JNumber _) \<Rightarrow> True | Some JNonFinite \<Rightarrow> True | _ \<Rightarrow> False)"

definition isValidBroadcastPayload :: "json \<Rightarrow> bool" where
  "isValidBroadcastPayload v =
     (if \<not> isObject v then False
      else if getProp v ''type'' \<noteq> Some (JString ''state'') then False
      else if (case getProp v ''timestamp'' of Some (JNumber _) \<Rightarrow> False | _ \<Rightarrow> True) then False
      else if (case getProp v ''instances'' of Some (JArray _) \<Rightarrow> False | _ \<Rightarrow> True) then False
      else (case getProp v ''mapDimensions'' of
              None \<Rightarrow> True
            | Some mapDimensions \<Rightarrow>
                if \<not> isObject mapDimensions then False
                else if \<not> (isNumberTyped (getProp mapDimensions ''width'')
                            \<and> isNumberTyped (getProp mapDimensions ''height'')) then False
                else True))"

text \<open>
  One poll. What the file system gives is an argument: no file, a read that throws, or
  the content. \<open>jsonParse\<close> is the platform's \<open>JSON.parse\<close>, \<open>None\<close> when it throws.
  Every exception ends the poll silently.
\<close>

datatype file_read = NoFile | ReadThrows | Content string

definition pollStateFile ::
  "(string \<Rightarrow> json option) \<Rightarrow> (WebSocket \<Rightarrow> bool) \<Rightarrow> (WebSocket \<Rightarrow> frame \<Rightarrow> bool) \<Rightarrow> file_read
     \<Rightarrow> ServerState \<Rightarrow> effect list \<times> ServerState" where
  "pollStateFile jsonParse isOpen sendThrows file st =
     (case file of
        NoFile \<Rightarrow> ([], st)
      | ReadThrows \<Rightarrow> ([], st)
      | Content content \<Rightarrow>
          (case jsonParse content of
             None \<Rightarrow> ([], st)
           | Some parsed \<Rightarrow>
               if \<not> isValidBroadcastPayload parsed then
                 ([ConsoleWarn ''Ignoring invalid broadcast payload shape from state file''], st)
               else (case getProp parsed ''timestamp'' of
                       Some (JNumber ts) \<Rightarrow>
                         if ts \<noteq> lastTimestamp st then
                           (let st1 = st\<lparr>lastTimestamp := ts, lastState := content\<rparr>
                            in (broadcastToClients isOpen sendThrows content st1, st1))
                         else ([], st)
                     | _ \<Rightarrow> ([], st))))"

subsection \<open>Runs of the registry\<close>

text \<open>
  The state at start-up; \<open>initialPayload\<close> is the serialized empty snapshot, which
  holds the start-up time.
\<close>

definition initialState :: "string \<Rightarrow> ServerState" where
  "initialState initialPayload =
     \<lparr>clients = [], ipConnectionCounts = Map.empty, sessionTokens = Map.empty,
      lastState = initialPayload, lastTimestamp = 0, listeners = Map.empty\<rparr>"

text \<open>
  A run of registrations and closes. \<open>Joined sock ip now\<close> is a connection handler
  that ran to its end for a new socket: the registration and the close listener.
  \<open>Closed sock\<close> is the \<open>close\<close> event of a socket.
\<close>

datatype event = Joined WebSocket string int | Closed WebSocket

fun step :: "event \<Rightarrow> ServerState \<Rightarrow> ServerState" where
  "step (Joined sock ip now) st =
     (let st1 = register sock ip now st in st1\<lparr>listeners := (listeners st1)(sock \<mapsto> ip)\<rparr>)"
| "step (Closed sock) st = socketClosed sock st"

fun run :: "event list \<Rightarrow> ServerState \<Rightarrow> ServerState" where
  "run [] st = st"
| "run (e # es) st = run es (step e st)"

text \<open>
  The runs that can happen: every connection event brings a new socket object, and a
  socket closes only while it is registered (so at most once).
\<close>

fun enabled :: "event \<Rightarrow> ServerState \<Rightarrow> bool" where
  "enabled (Joined sock ip now) st = (sock \<notin> fst ` set (clients st))"
| "enabled (Closed sock) st = (sock \<in> fst ` set (clients st))"

fun wellFormed :: "event list \<Rightarrow> ServerState \<Rightarrow> bool" where
  "wellFormed [] st = True"
| "wellFormed (e # es) st = (enabled e st \<and> wellFormed es (step e st))"

definition isJoined :: "event \<Rightarrow> bool" where
  "isJoined e = (case e of Joined _ _ _ \<Rightarrow> True | Closed _ \<Rightarrow> False)"

definition joins :: "event list \<Rightarrow> int" where
  "joins es = int (length (filter isJoined es))"

definition closes :: "event list \<Rightarrow> int" where
  "closes es = int (length (filter (\<lambda>e. \<not> isJoined e) es))"

text \<open>The number of registered connections of an ip.\<close>

definition connectionsOf :: "string \<Rightarrow> ServerState \<Rightarrow> int" where
  "connectionsOf ip st = int (length (filter (\<lambda>entry. c_ip (snd entry) = ip) (clients st)))"

text \<open>
  A run of upgrade requests with no connection and no close event in between, each with
  the clock of its expiry check.
\<close>

fun upgradeAttempts ::
  "url_parser \<Rightarrow> ServerConfig \<Rightarrow> (int \<times> IncomingMessage) list \<Rightarrow> ServerState
     \<Rightarrow> upgrade_outcome list \<times> ServerState" where
  "upgradeAttempts newURL config [] st = ([], st)"
| "upgradeAttempts newURL config ((now, req) # rest) st =
     (case upgrade newURL config now req st of
        (outcome, st1) \<Rightarrow>
          (case upgradeAttempts newURL config rest st1 of
             (outcomes, st2) \<Rightarrow> (outcome # outcomes, st2)))"

text \<open>The frames a list of effects handed to sockets, in order.\<close>

fun sends :: "effect list \<Rightarrow> (WebSocket \<times> frame) list" where
  "sends [] = []"
| "sends (Send sock f # rest) = (sock, f) # sends rest"
| "sends (ConsoleLog _ # rest) = sends rest"
| "sends (ConsoleWarn _ # rest) = sends rest"
| "sends (ConsoleError _ # rest) = sends rest"





subsection \<open>Sample configuration and requests\<close>

text \<open>
  The values the examples below are evaluated at: a viewer site with one allowed
  origin, a per-ip limit of one connection, a total of two, and a token lifetime
  configured below the floor. \<open>sampleURL\<close> is the URL parser on the strings these
  examples hand to it.
\<close>

definition sampleToken :: string where
  "sampleToken = ''00112233445566778899aabbccddeeff0011223344556677''"

definition viewerOrigin :: string where
  "viewerOrigin = ''https://viewer.example.com''"

definition sampleURL :: url_parser where
  "sampleURL input base =
     (if input = ''https://viewer.example.com'' \<and> base = None then
        Some \<lparr>protocol = ''https:'', hostname = ''viewer.example.com'', pathname = ''/'',
              searchParams = []\<rparr>
      else if input = ''https://viewer.example.com:5173'' \<and> base = None then
        Some \<lparr>protocol = ''https:'', hostname = ''viewer.example.com'', pathname = ''/'',
              searchParams = []\<rparr>
      else if input = ''https://evil.example.com'' \<and> base = None then
        Some \<lparr>protocol = ''https:'', hostname = ''evil.example.com'', pathname = ''/'',
              searchParams = []\<rparr>
      else if input = ''http://viewer.example.com'' \<and> base = None then
        Some \<lparr>protocol = ''http:'', hostname = ''viewer.example.com'', pathname = ''/'',
              searchParams = []\<rparr>
      else if input = ''/session-token'' \<and> base = Some ''http://viewer.example.com'' then
        Some \<lparr>protocol = ''http:'', hostname = ''viewer.example.com'',
              pathname = ''/session-token'', searchParams = []\<rparr>
      else if input = ''/ws?sessionToken='' @ sampleToken
              \<and> base = Some ''http://viewer.example.com'' then
        Some \<lparr>protocol = ''http:'', hostname = ''viewer.example.com'', pathname = ''/ws'',
              searchParams = [(''sessionToken'', sampleToken)]\<rparr>
      else None)"

definition sampleConfig :: ServerConfig where
  "sampleConfig =
     \<lparr>allowedOrigins = [viewerOrigin], allowSameHostDifferentPort = None,
      pollIntervalMs = 1000, maxConnectionsPerIp = 1, maxTotalConnections = 2,
      trustProxy = False, idleTimeoutMs = 10000, cfg_sessionTokenTtlMs = Some 2000\<rparr>"

definition tokenRequest :: IncomingMessage where
  "tokenRequest =
     \<lparr>req_method = Some ''GET'', req_url = Some ''/session-token'',
      hdr_origin = Some viewerOrigin, hdr_host = Some ''viewer.example.com'',
      hdr_cf_connecting_ip = None, hdr_x_real_ip = None, hdr_x_forwarded_for = None,
      remoteAddress = Some ''198.51.100.7''\<rparr>"

definition upgradeRequest :: IncomingMessage where
  "upgradeRequest = tokenRequest\<lparr>req_url := Some (''/ws?sessionToken='' @ sampleToken)\<rparr>"

definition viewerSession :: SessionTokenState where
  "viewerSession = \<lparr>t_ip = ''198.51.100.7'', t_origin = viewerOrigin, expiresAt = 5000\<rparr>"

definition emptyState :: ServerState where
  "emptyState = initialState ''{}''"

text \<open>Two open connections of two other addresses: the registry at its total.\<close>

definition fullState :: ServerState where
  "fullState = run [Joined 1 ''192.0.2.1'' 0, Joined 2 ''192.0.2.2'' 0] emptyState"

text \<open>The state file contents of the poller example, and \<open>JSON.parse\<close> on them.\<close>

definition firstContent :: string where
  "firstContent = ''{\"type\":\"state\",\"timestamp\":100,\"instances\":[]}''"

definition secondContent :: string where
  "secondContent = ''{\"type\":\"state\",\"timestamp\":100,\"instances\":[{\"id\":1}]}''"

definition sampleJsonParse :: "string \<Rightarrow> json option" where
  "sampleJsonParse content =
     (if content = firstContent then
        Some (JObject [(''type'', JString ''state''), (''timestamp'', JNumber 100),
                       (''instances'', JArray [])])
      else if content = secondContent then
        Some (JObject [(''type'', JString ''state''), (''timestamp'', JNumber 100),
                       (''instances'', JArray [JObject [(''id'', JNumber 1)]])])
      else None)"

definition spoofedRequest :: IncomingMessage where
  "spoofedRequest =
     tokenRequest\<lparr>hdr_cf_connecting_ip := Some ''203.0.113.99'',
                  hdr_x_real_ip := Some ''203.0.113.98'',
                  hdr_x_forwarded_for := Some ''203.0.113.97, 10.0.0.1''\<rparr>"

text \<open>
  A run of the registry: two connections of one address, a third of another, and the
  first two closing.
\<close>

definition sampleRun :: "event list" where
  "sampleRun =
     [Joined 1 ''192.0.2.1'' 10, Joined 2 ''192.0.2.1'' 20, Closed 1,
      Joined 3 ''192.0.2.2'' 30, Closed 2]"

subsection \<open>The invariant of the registry\<close>

text \<open>
  Socket objects are registered once; the count kept for an ip is the number of its
  registered connections, with no entry at zero; a socket carries a close listener
  exactly while it is registered, with the ip of its entry.
\<close>

definition registryInv :: "ServerState \<Rightarrow> bool" where
  "registryInv st =
     (distinct (map fst (clients st))
      \<and> (\<forall>ip. ipConnectionCounts st ip =
                 (if connectionsOf ip st = 0 then None else Some (connectionsOf ip st)))
      \<and> (\<forall>sock. listeners st sock = map_option c_ip (map_of (clients st) sock)))"

text \<open>The token store with one entry deleted.\<close>

definition revoke :: "string \<Rightarrow> ServerState \<Rightarrow> ServerState" where
  "revoke tok st = st\<lparr>sessionTokens := (sessionTokens st)(tok := None)\<rparr>"

text \<open>The start-up state with the sample token stored for the viewer.\<close>

definition storedState :: ServerState where
  "storedState = emptyState\<lparr>sessionTokens := [sampleToken \<mapsto> viewerSession]\<rparr>"

text \<open>A store that holds one entry, expired since time \<open>50\<close>.\<close>

definition staleToken :: string where
  "staleToken = ''ffeeddccbbaa99887766554433221100ffeeddccbbaa9988''"

definition staleSession :: SessionTokenState where
  "staleSession = \<lparr>t_ip = ''192.0.2.1'', t_origin = [], expiresAt = 50\<rparr>"

definition staleState :: ServerState where
  "staleState = emptyState\<lparr>sessionTokens := [staleToken \<mapsto> staleSession]\<rparr>"

text \<open>The viewer holds the sample token and has one open connection.\<close>

definition viewerState :: ServerState where
  "viewerState = (run [Joined 1 ''198.51.100.7'' 0] emptyState)
       \<lparr>sessionTokens := [sampleToken \<mapsto> viewerSession]\<rparr>"



section \<open>Client IP without a trusted proxy\<close>

text \<open>
  C10. With \<open>trustProxy\<close> false the derived client IP is the transport peer address, or
  the constant \<open>unknown\<close> when the socket has none, whatever the request's
  \<open>cf-connecting-ip\<close>, \<open>x-real-ip\<close> and \<open>x-forwarded-for\<close> headers hold: replacing
  these three headers by any other values leaves the client IP unchanged.
\<close>

theorem getClientIp_untrusted:
  assumes "\<not> trustProxy config"
  shows "getClientIp config req =
           (case remoteAddress req of None \<Rightarrow> ''unknown'' | Some a \<Rightarrow> a)
       \<and> getClientIp config
           (req\<lparr>hdr_cf_connecting_ip := cf, hdr_x_real_ip := xr, hdr_x_forwarded_for := xf\<rparr>)
         = getClientIp config req"
  using assms by (simp add: getClientIp_def)

text \<open>
  The sample request with three forged forwarding headers, and the same request without
  its socket address.
\<close>

theorem getClientIp_untrusted_witness:
  "\<not> trustProxy sampleConfig
   \<and> getClientIp sampleConfig spoofedRequest = ''198.51.100.7''
   \<and> getClientIp sampleConfig tokenRequest = getClientIp sampleConfig spoofedRequest
   \<and> getClientIp sampleConfig (spoofedRequest\<lparr>remoteAddress := None\<rparr>) = ''unknown''"
  using getClientIp_untrusted[of sampleConfig spoofedRequest None None None]
        getClientIp_untrusted[of sampleConfig "spoofedRequest\<lparr>remoteAddress := None\<rparr>"]
  by (simp add: sampleConfig_def spoofedRequest_def tokenRequest_def)

section \<open>The registry over runs of registrations and closes\<close>

lemma mapSet_fresh: "k \<notin> fst ` set m \<Longrightarrow> mapSet m k v = m @ [(k, v)]"
  by (induction m) auto

lemma filter_absent_key:
  "k \<notin> fst ` set m \<Longrightarrow> filter (\<lambda>e. fst e \<noteq> k \<and> P e) m = filter P m"
  by (rule filter_cong) auto

lemma mapDelete_absent: "k \<notin> fst ` set m \<Longrightarrow> mapDelete m k = m"
  unfolding mapDelete_def by (induction m) auto

lemma mapDelete_length:
  "distinct (map fst m) \<Longrightarrow> k \<in> fst ` set m \<Longrightarrow> length (mapDelete m k) + 1 = length m"
proof (induction m)
  case Nil
  then show ?case by simp
next
  case (Cons a m)
  show ?case
  proof (cases "fst a = k")
    case True
    with Cons.prems have "k \<notin> fst ` set m" by auto
    then have "mapDelete m k = m" by (rule mapDelete_absent)
    with True show ?thesis by (simp add: mapDelete_def)
  next
    case False
    with Cons show ?thesis by (auto simp: mapDelete_def)
  qed
qed

lemma mapDelete_distinct: "distinct (map fst m) \<Longrightarrow> distinct (map fst (mapDelete m k))"
  unfolding mapDelete_def by (simp add: distinct_map_filter)

lemma mapDelete_map_of:
  "map_of (mapDelete m k) = (map_of m)(k := None)"
  unfolding mapDelete_def by (induction m) auto

lemma mapDelete_count:
  "distinct (map fst m) \<Longrightarrow> map_of m k = Some c \<Longrightarrow>
   int (length (filter P (mapDelete m k)))
     = int (length (filter P m)) - (if P (k, c) then 1 else 0)"
proof (induction m)
  case Nil
  then show ?case by simp
next
  case (Cons a m)
  show ?case
  proof (cases "fst a = k")
    case True
    with Cons.prems have absent: "k \<notin> fst ` set m" and a: "a = (k, c)"
      by (auto simp: prod_eq_iff)
    from absent have "mapDelete m k = m" by (rule mapDelete_absent)
    then have "mapDelete (a # m) k = m" using True by (simp add: mapDelete_def)
    then show ?thesis using a by simp
  next
    case False
    with Cons.prems have "map_of m k = Some c" by (cases a) (auto split: if_splits)
    with Cons have "int (length (filter P (mapDelete m k)))
                  = int (length (filter P m)) - (if P (k, c) then 1 else 0)" by simp
    moreover have "mapDelete (a # m) k = a # mapDelete m k"
      using False by (simp add: mapDelete_def)
    ultimately show ?thesis by (cases "P a") (auto split: if_splits)
  qed
qed

lemma step_Joined_inv:
  assumes "registryInv st" and "sock \<notin> fst ` set (clients st)"
  shows "registryInv (step (Joined sock ip now) st)"
proof -
  from assms(2) have none: "map_of (clients st) sock = None"
    by (simp add: map_of_eq_None_iff)
  show ?thesis
    using assms none
    unfolding registryInv_def
    by (auto simp: register_def Let_def mapSet_fresh connectionsOf_def map_add_def
        split: option.splits)
qed

lemma step_Closed_inv:
  assumes "registryInv st"
  shows "registryInv (step (Closed sock) st)"
proof (cases "map_of (clients st) sock")
  case None
  with assms have "listeners st sock = None" by (simp add: registryInv_def)
  then show ?thesis using assms by (simp add: socketClosed_def)
next
  case (Some c)
  define st' where "st' = step (Closed sock) st"
  from assms have dist: "distinct (map fst (clients st))"
    and cnt: "\<And>ip. ipConnectionCounts st ip =
                 (if connectionsOf ip st = 0 then None else Some (connectionsOf ip st))"
    and lis: "\<And>s. listeners st s = map_option c_ip (map_of (clients st) s)"
    by (simp_all add: registryInv_def)
  from Some lis have l: "listeners st sock = Some (c_ip c)" by simp
  have "(sock, c) \<in> set (clients st)" using Some by (rule map_of_SomeD)
  then have pos: "0 < connectionsOf (c_ip c) st"
    by (force simp: connectionsOf_def filter_empty_conv)
  have cl: "clients st' = mapDelete (clients st) sock"
    using l by (simp add: st'_def socketClosed_def onClose_def Let_def)
  have li: "listeners st' = (listeners st)(sock := None)"
    using l by (simp add: st'_def socketClosed_def onClose_def Let_def)
  have co: "ipConnectionCounts st' =
              (if connectionsOf (c_ip c) st - 1 \<le> 0 then (ipConnectionCounts st)(c_ip c := None)
               else (ipConnectionCounts st)(c_ip c \<mapsto> connectionsOf (c_ip c) st - 1))"
    using l pos cnt[of "c_ip c"]
    by (simp add: st'_def socketClosed_def onClose_def Let_def)
  have conn: "connectionsOf ip st' = connectionsOf ip st - (if c_ip c = ip then 1 else 0)" for ip
    using mapDelete_count[OF dist Some, of "\<lambda>entry. c_ip (snd entry) = ip"]
    by (simp add: connectionsOf_def cl)
  have "distinct (map fst (clients st'))"
    using dist by (simp add: cl mapDelete_distinct)
  moreover have "ipConnectionCounts st' ip =
          (if connectionsOf ip st' = 0 then None else Some (connectionsOf ip st'))" for ip
    using pos cnt[of ip] by (auto simp: co conn)
  moreover have "listeners st' s = map_option c_ip (map_of (clients st') s)" for s
    by (simp add: li cl mapDelete_map_of lis)
  ultimately show ?thesis
    unfolding registryInv_def st'_def by blast
qed

lemma run_inv:
  "registryInv st \<Longrightarrow> wellFormed es st \<Longrightarrow> registryInv (run es st)"
proof (induction es arbitrary: st)
  case Nil
  then show ?case by simp
next
  case (Cons e es)
  from Cons.prems have "registryInv (step e st)"
    by (cases e) (simp_all add: step_Joined_inv step_Closed_inv del: step.simps)
  with Cons show ?case by simp
qed

lemma step_size:
  assumes "registryInv st" and "enabled e st"
  shows "int (length (clients (step e st))) =
           int (length (clients st)) + (if isJoined e then 1 else - 1)"
proof (cases e)
  case (Joined sock ip now)
  with assms show ?thesis
    by (simp add: register_def mapSet_fresh isJoined_def)
next
  case (Closed sock)
  with assms(2) have mem: "sock \<in> fst ` set (clients st)" by simp
  then obtain c where c: "map_of (clients st) sock = Some c"
    by (cases "map_of (clients st) sock") (auto simp: map_of_eq_None_iff)
  with assms(1) have "listeners st sock = Some (c_ip c)" by (simp add: registryInv_def)
  moreover from assms(1) have "distinct (map fst (clients st))" by (simp add: registryInv_def)
  ultimately show ?thesis
    using mapDelete_length[of "clients st" sock] mem Closed
    by (simp add: socketClosed_def onClose_def Let_def isJoined_def)
qed

lemma run_size:
  "registryInv st \<Longrightarrow> wellFormed es st \<Longrightarrow>
   int (length (clients (run es st))) = int (length (clients st)) + joins es - closes es"
proof (induction es arbitrary: st)
  case Nil
  then show ?case by (simp add: joins_def closes_def)
next
  case (Cons e es)
  from Cons.prems have en: "enabled e st" and wf: "wellFormed es (step e st)" by simp_all
  from Cons.prems en have inv: "registryInv (step e st)"
    by (cases e) (simp_all add: step_Joined_inv step_Closed_inv del: step.simps)
  from Cons.IH[OF inv wf] step_size[OF Cons.prems(1) en]
  show ?case by (simp add: joins_def closes_def)
qed

lemma initial_inv: "registryInv (initialState p)"
  by (simp add: registryInv_def initialState_def connectionsOf_def)

text \<open>
  C6. After every run of registrations and closes from the start-up state, the
  \<open>ipConnectionCounts\<close> entry of each ip is the number of connections registered
  with that ip, and there is no entry (rather than a zero) when that number is zero;
  the size of \<open>clients\<close> is the number of joins minus the number of closes.
\<close>

theorem registry_counts:
  assumes "wellFormed es (initialState p)"
  shows "(\<forall>ip. ipConnectionCounts (run es (initialState p)) ip =
            (if connectionsOf ip (run es (initialState p)) = 0 then None
             else Some (connectionsOf ip (run es (initialState p)))))
       \<and> int (length (clients (run es (initialState p)))) = joins es - closes es"
proof -
  have "registryInv (run es (initialState p))"
    using initial_inv assms by (rule run_inv)
  moreover have "int (length (clients (run es (initialState p)))) = joins es - closes es"
    using run_size[OF initial_inv assms] by (simp add: initialState_def)
  ultimately show ?thesis by (simp add: registryInv_def)
qed

text \<open>The sample run: both connections of the first address have closed.\<close>

theorem registry_counts_witness:
  "wellFormed sampleRun emptyState
   \<and> ipConnectionCounts (run sampleRun emptyState) ''192.0.2.1'' = None
   \<and> ipConnectionCounts (run sampleRun emptyState) ''192.0.2.2'' = Some 1
   \<and> int (length (clients (run sampleRun emptyState))) = 1
   \<and> joins sampleRun = 3 \<and> closes sampleRun = 2"
proof -
  have wf: "wellFormed sampleRun (initialState ''{}'')"
    by (simp add: sampleRun_def initialState_def register_def socketClosed_def onClose_def
        mapDelete_def)
  have j: "joins sampleRun = 3" and c: "closes sampleRun = 2"
    by (simp_all add: joins_def closes_def sampleRun_def isJoined_def)
  have n1: "connectionsOf ''192.0.2.1'' (run sampleRun (initialState ''{}'')) = 0"
    and n2: "connectionsOf ''192.0.2.2'' (run sampleRun (initialState ''{}'')) = 1"
    by (simp_all add: connectionsOf_def sampleRun_def initialState_def register_def
        socketClosed_def onClose_def mapDelete_def)
  from registry_counts[OF wf] n1 n2 j c wf show ?thesis
    by (simp add: emptyState_def)
qed

section \<open>Session tokens at the upgrade handshake\<close>

lemma sampleToken_nonempty: "sampleToken \<noteq> []"
  by (simp add: sampleToken_def)

text \<open>
  C2. The token checks of the upgrade handshake come in a fixed order. A token value
  that is absent or empty is rejected as missing; a value with no entry as invalid; an
  entry with \<open>expiresAt \<le> now\<close> as expired, whatever its ip and origin, and the entry
  is removed; a live entry bound to another ip as an ip mismatch, whatever the origin,
  and the entry is removed, so that a later attempt with the same value, even from the
  bound ip, is rejected as invalid; a live entry of the right ip as an origin mismatch
  when its bound origin is not empty, the request has an origin (a header that is not
  empty) and the two differ, and the entry is removed. In every other case the
  handshake goes on and the store is unchanged: a bound origin that is empty matches
  any request origin.
\<close>

theorem validateSessionToken_order:
  "(\<not> truthy sessionToken \<longrightarrow>
      validateSessionToken now sessionToken ip originHeader st
        = (Rejected 401 ''Missing session token'', st))
   \<and> (tok \<noteq> [] \<and> sessionTokens st tok = None \<longrightarrow>
      validateSessionToken now (Some tok) ip originHeader st
        = (Rejected 401 ''Invalid session token'', st))
   \<and> (tok \<noteq> [] \<and> sessionTokens st tok = Some session \<and> expiresAt session \<le> now \<longrightarrow>
      validateSessionToken now (Some tok) ip originHeader st
        = (Rejected 401 ''Session token expired'', revoke tok st))
   \<and> (tok \<noteq> [] \<and> sessionTokens st tok = Some session \<and> now < expiresAt session
        \<and> t_ip session \<noteq> ip \<longrightarrow>
      validateSessionToken now (Some tok) ip originHeader st
        = (Rejected 401 ''Session token mismatch'', revoke tok st)
      \<and> validateSessionToken later (Some tok) (t_ip session) laterOrigin (revoke tok st)
        = (Rejected 401 ''Invalid session token'', revoke tok st))
   \<and> (tok \<noteq> [] \<and> sessionTokens st tok = Some session \<and> now < expiresAt session
        \<and> t_ip session = ip \<and> t_origin session \<noteq> [] \<and> truthy originHeader
        \<and> originHeader \<noteq> Some (t_origin session) \<longrightarrow>
      validateSessionToken now (Some tok) ip originHeader st
        = (Rejected 401 ''Session token origin mismatch'', revoke tok st))
   \<and> (tok \<noteq> [] \<and> sessionTokens st tok = Some session \<and> now < expiresAt session
        \<and> t_ip session = ip
        \<and> (t_origin session = [] \<or> \<not> truthy originHeader \<or> originHeader = Some (t_origin session)) \<longrightarrow>
      validateSessionToken now (Some tok) ip originHeader st = (HandleUpgrade, st))"
  by (auto simp: validateSessionToken_def truthy_def revoke_def split: option.splits)

text \<open>Each branch at the sample token, stored for the viewer until \<open>5000\<close>.\<close>

theorem validateSessionToken_order_witness:
  "validateSessionToken 1000 None ''198.51.100.7'' (Some viewerOrigin) storedState
     = (Rejected 401 ''Missing session token'', storedState)
   \<and> validateSessionToken 1000 (Some []) ''198.51.100.7'' (Some viewerOrigin) storedState
     = (Rejected 401 ''Missing session token'', storedState)
   \<and> validateSessionToken 1000 (Some sampleToken) ''198.51.100.7'' (Some viewerOrigin) emptyState
     = (Rejected 401 ''Invalid session token'', emptyState)
   \<and> validateSessionToken 5000 (Some sampleToken) ''203.0.113.5'' (Some ''https://evil.example.com'') storedState
     = (Rejected 401 ''Session token expired'', revoke sampleToken storedState)
   \<and> validateSessionToken 1000 (Some sampleToken) ''203.0.113.5'' (Some ''https://evil.example.com'') storedState
     = (Rejected 401 ''Session token mismatch'', revoke sampleToken storedState)
   \<and> validateSessionToken 1001 (Some sampleToken) ''198.51.100.7'' (Some viewerOrigin)
        (revoke sampleToken storedState)
     = (Rejected 401 ''Invalid session token'', revoke sampleToken storedState)
   \<and> validateSessionToken 1000 (Some sampleToken) ''198.51.100.7'' (Some ''https://evil.example.com'') storedState
     = (Rejected 401 ''Session token origin mismatch'', revoke sampleToken storedState)
   \<and> validateSessionToken 1000 (Some sampleToken) ''198.51.100.7'' None storedState
     = (HandleUpgrade, storedState)
   \<and> validateSessionToken 1000 (Some sampleToken) ''198.51.100.7'' (Some viewerOrigin) storedState
     = (HandleUpgrade, storedState)"
proof -
  have stored: "sessionTokens storedState sampleToken = Some viewerSession"
    by (simp add: storedState_def)
  have absent: "sessionTokens emptyState sampleToken = None"
    by (simp add: emptyState_def initialState_def)
  have vs: "t_ip viewerSession = ''198.51.100.7''" "t_origin viewerSession = viewerOrigin"
    "expiresAt viewerSession = 5000" "viewerOrigin \<noteq> []"
    "viewerOrigin \<noteq> ''https://evil.example.com''"
    "''https://evil.example.com'' \<noteq> viewerOrigin"
    by (simp_all add: viewerSession_def viewerOrigin_def)
  note facts = stored absent vs sampleToken_nonempty truthy_def
  have missing: "validateSessionToken 1000 None ''198.51.100.7'' (Some viewerOrigin) storedState
       = (Rejected 401 ''Missing session token'', storedState)"
    and empty: "validateSessionToken 1000 (Some []) ''198.51.100.7'' (Some viewerOrigin) storedState
       = (Rejected 401 ''Missing session token'', storedState)"
    using validateSessionToken_order[where sessionToken = None and now = 1000
          and ip = "''198.51.100.7''" and originHeader = "Some viewerOrigin" and st = storedState]
      validateSessionToken_order[where sessionToken = "Some []" and now = 1000
          and ip = "''198.51.100.7''" and originHeader = "Some viewerOrigin" and st = storedState]
    by (simp_all add: facts)
  have invalid: "validateSessionToken 1000 (Some sampleToken) ''198.51.100.7'' (Some viewerOrigin)
         emptyState = (Rejected 401 ''Invalid session token'', emptyState)"
    using validateSessionToken_order[where tok = sampleToken and now = 1000
          and ip = "''198.51.100.7''" and originHeader = "Some viewerOrigin" and st = emptyState]
    by (simp add: facts)
  have expired: "validateSessionToken 5000 (Some sampleToken) ''203.0.113.5''
         (Some ''https://evil.example.com'') storedState
       = (Rejected 401 ''Session token expired'', revoke sampleToken storedState)"
    using validateSessionToken_order[where tok = sampleToken and now = 5000
          and session = viewerSession and ip = "''203.0.113.5''"
          and originHeader = "Some ''https://evil.example.com''" and st = storedState]
    by (simp add: facts)
  have mismatch: "validateSessionToken 1000 (Some sampleToken) ''203.0.113.5''
         (Some ''https://evil.example.com'') storedState
       = (Rejected 401 ''Session token mismatch'', revoke sampleToken storedState)"
    and afterwards: "validateSessionToken 1001 (Some sampleToken) ''198.51.100.7''
         (Some viewerOrigin) (revoke sampleToken storedState)
       = (Rejected 401 ''Invalid session token'', revoke sampleToken storedState)"
    using validateSessionToken_order[where tok = sampleToken and now = 1000
          and session = viewerSession and ip = "''203.0.113.5''"
          and originHeader = "Some ''https://evil.example.com''" and st = storedState
          and later = 1001 and laterOrigin = "Some viewerOrigin"]
    by (simp_all add: facts)
  have origin: "validateSessionToken 1000 (Some sampleToken) ''198.51.100.7''
         (Some ''https://evil.example.com'') storedState
       = (Rejected 401 ''Session token origin mismatch'', revoke sampleToken storedState)"
    using validateSessionToken_order[where tok = sampleToken and now = 1000
          and session = viewerSession and ip = "''198.51.100.7''"
          and originHeader = "Some ''https://evil.example.com''" and st = storedState]
    by (simp add: facts)
  have accepted: "validateSessionToken 1000 (Some sampleToken) ''198.51.100.7'' None storedState
       = (HandleUpgrade, storedState)"
      "validateSessionToken 1000 (Some sampleToken) ''198.51.100.7'' (Some viewerOrigin) storedState
       = (HandleUpgrade, storedState)"
    using validateSessionToken_order[where tok = sampleToken and now = 1000
          and session = viewerSession and ip = "''198.51.100.7''"
          and originHeader = None and st = storedState]
      validateSessionToken_order[where tok = sampleToken and now = 1000
          and session = viewerSession and ip = "''198.51.100.7''"
          and originHeader = "Some viewerOrigin" and st = storedState]
    by (simp_all add: facts)
  from missing empty invalid expired mismatch afterwards origin accepted
  show ?thesis by simp
qed

text \<open>
  C1. A token issued for \<open>(ip, origin)\<close> is accepted by the token checks of the
  handshake, with the same ip and origin, at every time before its \<open>expiresAt\<close>, and
  a sweep at such a time keeps it. From \<open>expiresAt\<close> on the checks reject it as
  expired, whatever ip and origin the request has, and remove it; a sweep removes it
  too. The sweep that ends the issuing handler reads the clock again (\<open>sweepNow\<close>):
  it runs before the lifetime of the new token, at least five seconds, has passed.
\<close>

theorem issued_token_validates_until_expiry:
  assumes "token \<noteq> []"
    and "issueSessionToken config token now sweepNow ip originHeader st = ((tok, expires), st')"
    and "sweepNow < expires"
  shows "tok = token
       \<and> expires = now + sessionTokenTtlMs config
       \<and> (t < expires \<longrightarrow>
            validateSessionToken t (Some tok) ip originHeader st' = (HandleUpgrade, st')
            \<and> sessionTokens (cleanExpiredSessionTokens t st') tok = sessionTokens st' tok)
       \<and> (expires \<le> t \<longrightarrow>
            validateSessionToken t (Some tok) anyIp anyOrigin st'
              = (Rejected 401 ''Session token expired'', revoke tok st')
            \<and> sessionTokens (revoke tok st') tok = None
            \<and> sessionTokens (cleanExpiredSessionTokens t st') tok = None)"
proof -
  define session where
    "session = \<lparr>t_ip = ip, t_origin = (case originHeader of None \<Rightarrow> [] | Some origin \<Rightarrow> origin),
                expiresAt = expires\<rparr>"
  from assms(2) have tok: "tok = token" and ex: "expires = now + sessionTokenTtlMs config"
    by (auto simp: issueSessionToken_def Let_def)
  from assms(2,3) have stored: "sessionTokens st' tok = Some session"
    by (auto simp: issueSessionToken_def cleanExpiredSessionTokens_def Let_def session_def)
  have ne: "tok \<noteq> []" using assms(1) tok by simp
  have fields: "t_ip session = ip" "expiresAt session = expires"
    "t_origin session = [] \<or> originHeader = Some (t_origin session)"
    by (cases originHeader; simp add: session_def)+
  have valid: "validateSessionToken t (Some tok) ip originHeader st' = (HandleUpgrade, st')"
    if "t < expires"
    using that stored ne fields
    by (auto simp: validateSessionToken_def truthy_def)
  have kept: "sessionTokens (cleanExpiredSessionTokens t st') tok = sessionTokens st' tok"
    if "t < expires"
    using that stored fields by (simp add: cleanExpiredSessionTokens_def)
  have expired: "validateSessionToken t (Some tok) anyIp anyOrigin st'
                   = (Rejected 401 ''Session token expired'', revoke tok st')"
    if "expires \<le> t"
    using that stored ne fields by (simp add: validateSessionToken_def revoke_def)
  have swept: "sessionTokens (cleanExpiredSessionTokens t st') tok = None"
    if "expires \<le> t"
    using that stored fields by (simp add: cleanExpiredSessionTokens_def)
  have gone: "sessionTokens (revoke tok st') tok = None"
    by (simp add: revoke_def)
  from tok ex valid kept expired swept gone show ?thesis by simp
qed

text \<open>The sample token issued at time \<open>0\<close> under a configured lifetime of 2000.\<close>

theorem issued_token_validates_until_expiry_witness:
  "sampleToken \<noteq> []
   \<and> issueSessionToken sampleConfig sampleToken 0 0 ''198.51.100.7'' (Some viewerOrigin) emptyState
       = ((sampleToken, 5000), storedState)
   \<and> validateSessionToken 4999 (Some sampleToken) ''198.51.100.7'' (Some viewerOrigin) storedState
       = (HandleUpgrade, storedState)
   \<and> validateSessionToken 5000 (Some sampleToken) ''198.51.100.7'' (Some viewerOrigin) storedState
       = (Rejected 401 ''Session token expired'', revoke sampleToken storedState)
   \<and> sessionTokens (revoke sampleToken storedState) sampleToken = None"
proof -
  have issue: "issueSessionToken sampleConfig sampleToken 0 0 ''198.51.100.7'' (Some viewerOrigin)
      emptyState = ((sampleToken, 5000), storedState)"
    by (simp add: issueSessionToken_def cleanExpiredSessionTokens_def sessionTokenTtlMs_def
        sampleConfig_def storedState_def emptyState_def initialState_def viewerSession_def
        Let_def fun_eq_iff)
  from issued_token_validates_until_expiry[OF sampleToken_nonempty issue, of 4999]
    issued_token_validates_until_expiry[OF sampleToken_nonempty issue, of 5000
      "''198.51.100.7''" "Some viewerOrigin"]
    issue sampleToken_nonempty
  show ?thesis by simp
qed

text \<open>
  C7, as the code has it. Issuing returns the token and \<open>expiresAt\<close> = the clock plus
  \<open>max(5000, sessionTokenTtlMs)\<close>, with 30000 for a lifetime that is not configured.
  On the state it changes the token store only: the new entry is inserted and the store
  is then swept, which removes every entry with \<open>expiresAt \<le> sweepNow\<close>. A
  \<open>GET /session-token\<close> request that passes the origin and host check is answered
  with status 200, the token and \<open>expiresAt\<close>.
\<close>

theorem issueSessionToken_effect:
  "fst (issueSessionToken config token now sweepNow ip originHeader st)
     = (token, now + max 5000 (case cfg_sessionTokenTtlMs config of None \<Rightarrow> 30000 | Some ttl \<Rightarrow> ttl))
   \<and> (\<forall>k. sessionTokens (snd (issueSessionToken config token now sweepNow ip originHeader st)) k
          = (case ((sessionTokens st)
                    (token \<mapsto> \<lparr>t_ip = ip,
                               t_origin = (case originHeader of None \<Rightarrow> [] | Some origin \<Rightarrow> origin),
                               expiresAt = now + sessionTokenTtlMs config\<rparr>)) k of
               None \<Rightarrow> None
             | Some v \<Rightarrow> if expiresAt v \<le> sweepNow then None else Some v))
   \<and> snd (issueSessionToken config token now sweepNow ip originHeader st)
       = st\<lparr>sessionTokens :=
              sessionTokens (snd (issueSessionToken config token now sweepNow ip originHeader st))\<rparr>
   \<and> (requestUrlOf newURL req = Some requestUrl \<and> pathname requestUrl = ''/session-token''
        \<and> req_method req \<in> {None, Some ''GET''}
        \<and> isSessionRequestAllowed newURL config req (hdr_origin req) \<longrightarrow>
      requestHandler newURL config token now sweepNow req st
        = Some (\<lparr>statusCode = 200,
                 accessControlAllowOrigin = setCorsHeaders newURL config (hdr_origin req),
                 payload = SessionTokenPayload token (now + sessionTokenTtlMs config)\<rparr>,
                snd (issueSessionToken config token now sweepNow (getClientIp config req)
                       (hdr_origin req) st)))"
  by (auto simp: issueSessionToken_def cleanExpiredSessionTokens_def sessionTokenTtlMs_def
      requestHandler_def Let_def split: option.splits)

text \<open>
  The specification says that issuing does nothing to the store but insert. In a store that
  holds an expired entry, issuing a token at time \<open>100\<close> removes that entry, which
  the insertion alone would have kept.
\<close>

theorem issueSessionToken_sweeps_counterexample:
  "sessionTokens staleState staleToken = Some staleSession
   \<and> sessionTokens
        (snd (issueSessionToken sampleConfig sampleToken 100 100 ''198.51.100.7''
                (Some viewerOrigin) staleState))
        staleToken = None
   \<and> ((sessionTokens staleState)
         (sampleToken \<mapsto> \<lparr>t_ip = ''198.51.100.7'', t_origin = viewerOrigin, expiresAt = 5100\<rparr>))
        staleToken = Some staleSession"
  by (simp add: staleState_def staleToken_def staleSession_def issueSessionToken_def
      cleanExpiredSessionTokens_def Let_def sampleToken_def)

text \<open>
  A configured lifetime of 2000 is raised to 5000: the token issued at time \<open>0\<close> by
  the sample request expires at \<open>5000\<close>, is accepted at \<open>4000\<close> and rejected as
  expired at \<open>5001\<close>.
\<close>

theorem issueSessionToken_effect_witness:
  "requestHandler sampleURL sampleConfig sampleToken 0 0 tokenRequest emptyState
     = Some (\<lparr>statusCode = 200, accessControlAllowOrigin = Some viewerOrigin,
              payload = SessionTokenPayload sampleToken 5000\<rparr>, storedState)
   \<and> fst (validateSessionToken 4000 (Some sampleToken) ''198.51.100.7'' (Some viewerOrigin)
            storedState) = HandleUpgrade
   \<and> fst (validateSessionToken 5001 (Some sampleToken) ''198.51.100.7'' (Some viewerOrigin)
            storedState) = Rejected 401 ''Session token expired''"
proof -
  have url: "requestUrlOf sampleURL tokenRequest
      = Some \<lparr>protocol = ''http:'', hostname = ''viewer.example.com'',
              pathname = ''/session-token'', searchParams = []\<rparr>"
    by (simp add: requestUrlOf_def tokenRequest_def sampleURL_def)
  have allowed: "isSessionRequestAllowed sampleURL sampleConfig tokenRequest (hdr_origin tokenRequest)"
    by (simp add: isSessionRequestAllowed_def isOriginAllowed_def tokenRequest_def
        sampleConfig_def viewerOrigin_def)
  have cors: "setCorsHeaders sampleURL sampleConfig (hdr_origin tokenRequest) = Some viewerOrigin"
    by (simp add: setCorsHeaders_def isOriginAllowed_def tokenRequest_def truthy_def
        sampleConfig_def viewerOrigin_def)
  have ip: "getClientIp sampleConfig tokenRequest = ''198.51.100.7''"
    by (simp add: getClientIp_def tokenRequest_def sampleConfig_def)
  have ttl: "sessionTokenTtlMs sampleConfig = 5000"
    by (simp add: sessionTokenTtlMs_def sampleConfig_def)
  have issued: "snd (issueSessionToken sampleConfig sampleToken 0 0 ''198.51.100.7''
                       (Some viewerOrigin) emptyState) = storedState"
    by (simp add: issueSessionToken_def cleanExpiredSessionTokens_def ttl Let_def
        storedState_def emptyState_def initialState_def viewerSession_def fun_eq_iff)
  have handler: "requestHandler sampleURL sampleConfig sampleToken 0 0 tokenRequest emptyState
     = Some (\<lparr>statusCode = 200, accessControlAllowOrigin = Some viewerOrigin,
              payload = SessionTokenPayload sampleToken 5000\<rparr>, storedState)"
    using issueSessionToken_effect[of sampleConfig sampleToken 0 0 "''198.51.100.7''"
        "Some viewerOrigin" emptyState sampleURL tokenRequest
        "\<lparr>protocol = ''http:'', hostname = ''viewer.example.com'',
          pathname = ''/session-token'', searchParams = []\<rparr>"]
      url allowed cors ip ttl issued
    by (simp add: tokenRequest_def)
  have "fst (validateSessionToken 4000 (Some sampleToken) ''198.51.100.7'' (Some viewerOrigin)
            storedState) = HandleUpgrade"
    and "fst (validateSessionToken 5001 (Some sampleToken) ''198.51.100.7'' (Some viewerOrigin)
            storedState) = Rejected 401 ''Session token expired''"
    by (simp_all add: validateSessionToken_def storedState_def viewerSession_def truthy_def
        sampleToken_def)
  with handler show ?thesis by simp
qed

section \<open>Capacity checks of the upgrade handshake\<close>

lemma upgrade_at_capacity:
  assumes "maxTotalConnections config \<le> int (length (clients st))"
  shows "upgrade newURL config now req st =
           (if isOriginAllowed newURL config (hdr_origin req)
            then Rejected 503 ''Server at capacity''
            else Rejected 403 ''Origin not allowed'', st)"
  using assms by (simp add: upgrade_def admitNewConnection_def)

lemma upgradeAttempts_at_capacity:
  assumes "maxTotalConnections config \<le> int (length (clients st))"
  shows "upgradeAttempts newURL config attempts st =
           (map (\<lambda>attempt. if isOriginAllowed newURL config (hdr_origin (snd attempt))
                            then Rejected 503 ''Server at capacity''
                            else Rejected 403 ''Origin not allowed'') attempts, st)"
  using assms
  by (induction attempts) (auto simp: upgrade_at_capacity)

text \<open>
  C3, as the code has it. The origin check of the handshake comes first. For an upgrade
  request that passes it: when \<open>clients\<close> holds \<open>maxTotalConnections\<close> entries or
  more the request is rejected with status 503, whatever its ip; otherwise, when the
  count of its ip is \<open>maxConnectionsPerIp\<close> or more, with status 429; otherwise the
  handshake goes on to the request URL and the token checks. A rejected request leaves
  the state as it was, so while the registry is at its total every request of a run of
  upgrade requests is rejected: with 503 when its origin is allowed, with 403 when it
  is not.
\<close>

theorem upgrade_capacity_checks:
  assumes "isOriginAllowed newURL config (hdr_origin req)"
  shows "(maxTotalConnections config \<le> int (length (clients st)) \<longrightarrow>
            upgrade newURL config now req st = (Rejected 503 ''Server at capacity'', st))
       \<and> (int (length (clients st)) < maxTotalConnections config
           \<and> maxConnectionsPerIp config
               \<le> (case ipConnectionCounts st (getClientIp config req) of None \<Rightarrow> 0 | Some n \<Rightarrow> n) \<longrightarrow>
            upgrade newURL config now req st = (Rejected 429 ''Too many connections'', st))
       \<and> (int (length (clients st)) < maxTotalConnections config
           \<and> (case ipConnectionCounts st (getClientIp config req) of None \<Rightarrow> 0 | Some n \<Rightarrow> n)
               < maxConnectionsPerIp config \<longrightarrow>
            upgrade newURL config now req st =
              (case requestUrlOf newURL req of
                 None \<Rightarrow> (Rejected 400 ''Bad request'', st)
               | Some requestUrl \<Rightarrow>
                   validateSessionToken now (map_of (searchParams requestUrl) ''sessionToken'')
                     (getClientIp config req) (hdr_origin req) st))
       \<and> (maxTotalConnections config \<le> int (length (clients st)) \<longrightarrow>
            upgradeAttempts newURL config attempts st =
              (map (\<lambda>attempt. if isOriginAllowed newURL config (hdr_origin (snd attempt))
                               then Rejected 503 ''Server at capacity''
                               else Rejected 403 ''Origin not allowed'') attempts, st))"
  using assms
  by (auto simp: upgrade_def admitNewConnection_def Let_def upgradeAttempts_at_capacity)

text \<open>
  The specification gives status 503 to every upgrade request made at the total. A request from
  an origin that is not allowed, made at the total, is rejected with status 403.
\<close>

theorem upgrade_capacity_counterexample:
  "maxTotalConnections sampleConfig \<le> int (length (clients fullState))
   \<and> upgrade sampleURL sampleConfig 1000
        (upgradeRequest\<lparr>hdr_origin := Some ''https://evil.example.com''\<rparr>) fullState
      = (Rejected 403 ''Origin not allowed'', fullState)"
  by (simp add: upgrade_def isOriginAllowed_def sampleConfig_def fullState_def register_def
      emptyState_def initialState_def upgradeRequest_def tokenRequest_def viewerOrigin_def)

text \<open>
  The sample upgrade request with a per-ip limit of one and a total of two: accepted
  when the registry is empty, rejected with 429 when the viewer's address has one open
  connection, and with 503 when two other addresses fill the registry.
\<close>

theorem upgrade_capacity_checks_witness:
  "isOriginAllowed sampleURL sampleConfig (hdr_origin upgradeRequest)
   \<and> upgrade sampleURL sampleConfig 1000 upgradeRequest storedState = (HandleUpgrade, storedState)
   \<and> upgrade sampleURL sampleConfig 1000 upgradeRequest viewerState
       = (Rejected 429 ''Too many connections'', viewerState)
   \<and> upgrade sampleURL sampleConfig 1000 upgradeRequest fullState
       = (Rejected 503 ''Server at capacity'', fullState)
   \<and> upgradeAttempts sampleURL sampleConfig
        [(1000, upgradeRequest),
         (1001, upgradeRequest\<lparr>hdr_origin := Some ''https://evil.example.com''\<rparr>),
         (1002, upgradeRequest\<lparr>remoteAddress := Some ''192.0.2.9''\<rparr>)] fullState
       = ([Rejected 503 ''Server at capacity'', Rejected 403 ''Origin not allowed'',
           Rejected 503 ''Server at capacity''], fullState)"
proof -
  have allowed: "isOriginAllowed sampleURL sampleConfig (hdr_origin upgradeRequest)"
    "isOriginAllowed sampleURL sampleConfig
       (hdr_origin (upgradeRequest\<lparr>remoteAddress := Some ''192.0.2.9''\<rparr>))"
    "\<not> isOriginAllowed sampleURL sampleConfig
       (hdr_origin (upgradeRequest\<lparr>hdr_origin := Some ''https://evil.example.com''\<rparr>))"
    by (simp_all add: isOriginAllowed_def sampleConfig_def upgradeRequest_def tokenRequest_def
        viewerOrigin_def)
  have ip: "getClientIp sampleConfig upgradeRequest = ''198.51.100.7''"
    by (simp add: getClientIp_def sampleConfig_def upgradeRequest_def tokenRequest_def)
  have limits: "maxTotalConnections sampleConfig = 2" "maxConnectionsPerIp sampleConfig = 1"
    by (simp_all add: sampleConfig_def)
  have sizes: "length (clients storedState) = 0" "length (clients viewerState) = 1"
    "length (clients fullState) = 2"
    by (simp_all add: storedState_def viewerState_def fullState_def emptyState_def
        initialState_def register_def)
  have counts: "ipConnectionCounts storedState ''198.51.100.7'' = None"
    "ipConnectionCounts viewerState ''198.51.100.7'' = Some 1"
    by (simp_all add: storedState_def viewerState_def emptyState_def initialState_def
        register_def)
  have url: "requestUrlOf sampleURL upgradeRequest
      = Some \<lparr>protocol = ''http:'', hostname = ''viewer.example.com'', pathname = ''/ws'',
              searchParams = [(''sessionToken'', sampleToken)]\<rparr>"
    by (simp add: requestUrlOf_def upgradeRequest_def tokenRequest_def sampleURL_def
        sampleToken_def)
  have token: "validateSessionToken 1000 (Some sampleToken) ''198.51.100.7''
                 (hdr_origin upgradeRequest) storedState = (HandleUpgrade, storedState)"
    by (simp add: validateSessionToken_def storedState_def viewerSession_def truthy_def
        upgradeRequest_def tokenRequest_def sampleToken_def)
  have proceeds: "upgrade sampleURL sampleConfig 1000 upgradeRequest storedState
      = (HandleUpgrade, storedState)"
    using upgrade_capacity_checks[OF allowed(1), of storedState 1000] ip limits sizes counts url
      token
    by simp
  have perIp: "upgrade sampleURL sampleConfig 1000 upgradeRequest viewerState
      = (Rejected 429 ''Too many connections'', viewerState)"
    using upgrade_capacity_checks[OF allowed(1), of viewerState 1000] ip limits sizes counts
    by simp
  have total: "upgrade sampleURL sampleConfig 1000 upgradeRequest fullState
      = (Rejected 503 ''Server at capacity'', fullState)"
    using upgrade_capacity_checks[OF allowed(1), of fullState 1000] limits sizes
    by simp
  have attempts: "upgradeAttempts sampleURL sampleConfig
        [(1000, upgradeRequest),
         (1001, upgradeRequest\<lparr>hdr_origin := Some ''https://evil.example.com''\<rparr>),
         (1002, upgradeRequest\<lparr>remoteAddress := Some ''192.0.2.9''\<rparr>)] fullState
       = ([Rejected 503 ''Server at capacity'', Rejected 403 ''Origin not allowed'',
           Rejected 503 ''Server at capacity''], fullState)"
    using upgrade_capacity_checks[OF allowed(1), of fullState 1000
        "[(1000, upgradeRequest),
          (1001, upgradeRequest\<lparr>hdr_origin := Some ''https://evil.example.com''\<rparr>),
          (1002, upgradeRequest\<lparr>remoteAddress := Some ''192.0.2.9''\<rparr>)]"]
      limits sizes allowed
    by (simp del: upgradeAttempts.simps)
  from allowed(1) proceeds perIp total attempts show ?thesis by simp
qed

section \<open>The state file poller\<close>

lemma sends_broadcastLoop:
  "sends (broadcastLoop isOpen sendThrows json entries) =
     map (\<lambda>entry. (fst entry, Raw json))
       (filter (\<lambda>entry. isOpen (fst entry) \<and> \<not> sendThrows (fst entry) (Raw json)) entries)"
  by (induction entries) auto

lemma valid_payload_timestamp:
  "isValidBroadcastPayload parsed \<Longrightarrow> \<exists>ts. getProp parsed ''timestamp'' = Some (JNumber ts)"
  by (auto simp: isValidBroadcastPayload_def split: if_splits option.splits json.splits)

text \<open>
  C5. A poll that reads a payload which parses and has a valid shape compares its
  timestamp with \<open>lastTimestamp\<close>. When they are equal the poll does nothing: no
  frame, no console line, the state unchanged, whatever the content is. Otherwise
  \<open>lastTimestamp\<close> becomes the new timestamp, \<open>lastState\<close> the content, and the
  content goes to \<open>broadcastToClients\<close>, which sends it, as it is, to every
  registered connection whose socket is open (and does not throw), in registration
  order.
\<close>

theorem pollStateFile_dedup:
  assumes "jsonParse content = Some parsed" and "isValidBroadcastPayload parsed"
  shows "\<exists>ts. getProp parsed ''timestamp'' = Some (JNumber ts)
     \<and> (ts = lastTimestamp st \<longrightarrow>
          pollStateFile jsonParse isOpen sendThrows (Content content) st = ([], st))
     \<and> (ts \<noteq> lastTimestamp st \<longrightarrow>
          pollStateFile jsonParse isOpen sendThrows (Content content) st
            = (broadcastToClients isOpen sendThrows content st,
               st\<lparr>lastTimestamp := ts, lastState := content\<rparr>)
          \<and> sends (broadcastToClients isOpen sendThrows content st)
            = map (\<lambda>entry. (fst entry, Raw content))
                (filter (\<lambda>entry. isOpen (fst entry) \<and> \<not> sendThrows (fst entry) (Raw content))
                   (clients st)))"
proof -
  from assms(2) obtain ts where ts: "getProp parsed ''timestamp'' = Some (JNumber ts)"
    using valid_payload_timestamp by blast
  have same: "pollStateFile jsonParse isOpen sendThrows (Content content) st = ([], st)"
    if "ts = lastTimestamp st"
    using that assms ts by (simp add: pollStateFile_def)
  have changed: "pollStateFile jsonParse isOpen sendThrows (Content content) st
            = (broadcastToClients isOpen sendThrows content st,
               st\<lparr>lastTimestamp := ts, lastState := content\<rparr>)"
    if "ts \<noteq> lastTimestamp st"
    using that assms ts by (simp add: pollStateFile_def broadcastToClients_def Let_def)
  have all: "sends (broadcastToClients isOpen sendThrows content st)
            = map (\<lambda>entry. (fst entry, Raw content))
                (filter (\<lambda>entry. isOpen (fst entry) \<and> \<not> sendThrows (fst entry) (Raw content))
                   (clients st))"
    by (simp add: broadcastToClients_def sends_broadcastLoop)
  from ts same changed all show ?thesis by blast
qed

text \<open>
  Two polls with two registered connections: the first content is broadcast, the second,
  which differs but carries the same timestamp, is dropped.
\<close>

theorem pollStateFile_dedup_witness:
  "pollStateFile sampleJsonParse (\<lambda>sock. True) (\<lambda>sock f. False) (Content firstContent) fullState
     = ([Send 1 (Raw firstContent), Send 2 (Raw firstContent)],
        fullState\<lparr>lastTimestamp := 100, lastState := firstContent\<rparr>)
   \<and> pollStateFile sampleJsonParse (\<lambda>sock. True) (\<lambda>sock f. False) (Content secondContent)
        (fullState\<lparr>lastTimestamp := 100, lastState := firstContent\<rparr>)
     = ([], fullState\<lparr>lastTimestamp := 100, lastState := firstContent\<rparr>)
   \<and> firstContent \<noteq> secondContent"
proof -
  define first where "first = JObject [(''type'', JString ''state''), (''timestamp'', JNumber 100),
                       (''instances'', JArray [])]"
  define second where "second = JObject [(''type'', JString ''state''), (''timestamp'', JNumber 100),
                       (''instances'', JArray [JObject [(''id'', JNumber 1)]])]"
  have differ: "firstContent \<noteq> secondContent"
    by (simp add: firstContent_def secondContent_def)
  have p1: "sampleJsonParse firstContent = Some first"
    by (simp add: sampleJsonParse_def first_def)
  have p2: "sampleJsonParse secondContent = Some second"
    using differ by (simp add: sampleJsonParse_def second_def)
  have v1: "isValidBroadcastPayload first" and v2: "isValidBroadcastPayload second"
    by (simp_all add: isValidBroadcastPayload_def isObject_def getProp_def first_def second_def)
  have t1: "getProp first ''timestamp'' = Some (JNumber 100)"
    and t2: "getProp second ''timestamp'' = Some (JNumber 100)"
    by (simp_all add: getProp_def first_def second_def)
  have last: "lastTimestamp fullState = 0"
    by (simp add: fullState_def emptyState_def initialState_def register_def)
  have bc: "broadcastToClients (\<lambda>sock. True) (\<lambda>sock f. False) firstContent fullState
      = [Send 1 (Raw firstContent), Send 2 (Raw firstContent)]"
    by (simp add: broadcastToClients_def fullState_def emptyState_def initialState_def
        register_def)
  have one: "pollStateFile sampleJsonParse (\<lambda>sock. True) (\<lambda>sock f. False) (Content firstContent)
        fullState
     = ([Send 1 (Raw firstContent), Send 2 (Raw firstContent)],
        fullState\<lparr>lastTimestamp := 100, lastState := firstContent\<rparr>)"
    using pollStateFile_dedup[where jsonParse = sampleJsonParse and content = firstContent
        and parsed = first and st = fullState and isOpen = "\<lambda>sock. True"
        and sendThrows = "\<lambda>sock f. False", OF p1 v1] t1 last bc
    by auto
  have two: "pollStateFile sampleJsonParse (\<lambda>sock. True) (\<lambda>sock f. False) (Content secondContent)
        (fullState\<lparr>lastTimestamp := 100, lastState := firstContent\<rparr>)
     = ([], fullState\<lparr>lastTimestamp := 100, lastState := firstContent\<rparr>)"
    using pollStateFile_dedup[where jsonParse = sampleJsonParse and content = secondContent
        and parsed = second
        and st = "fullState\<lparr>lastTimestamp := 100, lastState := firstContent\<rparr>"
        and isOpen = "\<lambda>sock. True" and sendThrows = "\<lambda>sock f. False", OF p2 v2] t2
    by auto
  from one two differ show ?thesis by simp
qed

section \<open>The connection handler\<close>


lemma connection_sends_in_order:
  "connection sampleConfig (\<lambda>sock f. False) 1000 1 upgradeRequest storedState
     = (Returned,
        [ConsoleLog ''Client connected: 198.51.100.7'',
         Send 1 (JsonOf \<lparr>wp_type = ''welcome'', wp_message = ''Connected to Guild War Broadcast'',
                         wp_mapDimensions = (4800, 3000), wp_updateIntervalMs = 1000\<rparr>),
         Send 1 (Raw ''{}'')],
        step (Joined 1 ''198.51.100.7'' 1000) storedState)"
  by (simp add: connection_def getClientIp_def sampleConfig_def upgradeRequest_def
      tokenRequest_def register_def storedState_def emptyState_def initialState_def
      welcomePayload_def Let_def)




section \<open>The origin allow-list\<close>

lemma sameSchemeHostEntry_iff:
  "sameSchemeHostEntry newURL originUrl entries =
     (\<exists>a \<in> set entries. \<exists>allowedUrl. newURL a None = Some allowedUrl
        \<and> protocol allowedUrl = protocol originUrl \<and> hostname allowedUrl = hostname originUrl)"
  by (induction entries) (auto split: option.splits)

text \<open>
  C4, as the code has it. \<open>isOriginAllowed\<close> returns true when the allow-list is
  empty. Otherwise it returns true exactly for an origin that is present and not the
  empty string and that either is in the list verbatim or, with
  \<open>allowSameHostDifferentPort\<close> set, parses as a URL whose scheme and hostname are
  those of some entry of the list that parses (the port is not compared). Entries
  that do not parse are passed over; the function returns a value on every input.
\<close>

theorem isOriginAllowed_cases:
  "isOriginAllowed newURL config originHeader =
     (allowedOrigins config = []
      \<or> (\<exists>origin. originHeader = Some origin \<and> origin \<noteq> []
            \<and> (origin \<in> set (allowedOrigins config)
                \<or> (allowSameHostDifferentPort config = Some True
                    \<and> (\<exists>originUrl. newURL origin None = Some originUrl
                         \<and> (\<exists>a \<in> set (allowedOrigins config). \<exists>allowedUrl.
                               newURL a None = Some allowedUrl
                               \<and> protocol allowedUrl = protocol originUrl
                               \<and> hostname allowedUrl = hostname originUrl))))))"
  by (auto simp: isOriginAllowed_def sameSchemeHostEntry_iff split: option.splits)

text \<open>
  The specification lets every origin string that is in the list verbatim pass. The empty
  string is refused before the list is searched, also when the list holds it.
\<close>

theorem isOriginAllowed_empty_origin_counterexample:
  "allowedOrigins (sampleConfig\<lparr>allowedOrigins := [[]]\<rparr>) \<noteq> []
   \<and> [] \<in> set (allowedOrigins (sampleConfig\<lparr>allowedOrigins := [[]]\<rparr>))
   \<and> \<not> isOriginAllowed sampleURL (sampleConfig\<lparr>allowedOrigins := [[]]\<rparr>) (Some [])"
  by (simp add: isOriginAllowed_def sampleConfig_def)

text \<open>
  The cases at the sample configuration: open mode, the listed origin, the same host on
  another port without and with \<open>allowSameHostDifferentPort\<close>, another host, a list
  with an entry that does not parse, and a request without origin.
\<close>

theorem isOriginAllowed_cases_witness:
  "isOriginAllowed sampleURL (sampleConfig\<lparr>allowedOrigins := []\<rparr>) (Some ''https://evil.example.com'')
   \<and> isOriginAllowed sampleURL sampleConfig (Some viewerOrigin)
   \<and> \<not> isOriginAllowed sampleURL sampleConfig (Some ''https://viewer.example.com:5173'')
   \<and> isOriginAllowed sampleURL (sampleConfig\<lparr>allowSameHostDifferentPort := Some True\<rparr>)
        (Some ''https://viewer.example.com:5173'')
   \<and> \<not> isOriginAllowed sampleURL (sampleConfig\<lparr>allowSameHostDifferentPort := Some True\<rparr>)
        (Some ''https://evil.example.com'')
   \<and> isOriginAllowed sampleURL
        (sampleConfig\<lparr>allowedOrigins := [''not a url'', viewerOrigin],
                       allowSameHostDifferentPort := Some True\<rparr>)
        (Some ''https://viewer.example.com:5173'')
   \<and> \<not> isOriginAllowed sampleURL sampleConfig None"
  using isOriginAllowed_cases[of sampleURL "sampleConfig\<lparr>allowedOrigins := []\<rparr>" "Some ''https://evil.example.com''"]
    isOriginAllowed_cases[of sampleURL sampleConfig "Some viewerOrigin"]
    isOriginAllowed_cases[of sampleURL sampleConfig "Some ''https://viewer.example.com:5173''"]
    isOriginAllowed_cases[of sampleURL "sampleConfig\<lparr>allowSameHostDifferentPort := Some True\<rparr>"
       "Some ''https://viewer.example.com:5173''"]
    isOriginAllowed_cases[of sampleURL "sampleConfig\<lparr>allowSameHostDifferentPort := Some True\<rparr>"
       "Some ''https://evil.example.com''"]
    isOriginAllowed_cases[of sampleURL
       "sampleConfig\<lparr>allowedOrigins := [''not a url'', viewerOrigin],
                       allowSameHostDifferentPort := Some True\<rparr>"
       "Some ''https://viewer.example.com:5173''"]
    isOriginAllowed_cases[of sampleURL sampleConfig None]
  by (simp add: sampleConfig_def sampleURL_def viewerOrigin_def)

text \<open>
  C9. With a non-empty allow-list an upgrade request without \<open>Origin\<close> header is
  rejected with status 403, whatever its \<open>Host\<close> header, its token and the state are.
  Only the \<open>GET /session-token\<close> check falls back on the \<open>Host\<close> header for such a
  request: there it is allowed exactly when \<open>isHostAllowed\<close> accepts the host.
\<close>

theorem upgrade_without_origin_rejected:
  assumes "allowedOrigins config \<noteq> []" and "hdr_origin req = None"
  shows "upgrade newURL config now req st = (Rejected 403 ''Origin not allowed'', st)
       \<and> isSessionRequestAllowed newURL config req (hdr_origin req)
           = isHostAllowed newURL config (hdr_host req)"
  using assms
  by (simp add: upgrade_def isOriginAllowed_def isSessionRequestAllowed_def truthy_def)

text \<open>
  The sample requests without their \<open>Origin\<close> header, with the allowed host: the
  token request is answered with status 200, the upgrade with a valid token is rejected.
\<close>

theorem upgrade_without_origin_rejected_witness:
  "allowedOrigins sampleConfig \<noteq> []
   \<and> hdr_origin (upgradeRequest\<lparr>hdr_origin := None\<rparr>) = None
   \<and> upgrade sampleURL sampleConfig 1000 (upgradeRequest\<lparr>hdr_origin := None\<rparr>) storedState
       = (Rejected 403 ''Origin not allowed'', storedState)
   \<and> isSessionRequestAllowed sampleURL sampleConfig (tokenRequest\<lparr>hdr_origin := None\<rparr>) None
   \<and> map_option (statusCode \<circ> fst)
        (requestHandler sampleURL sampleConfig sampleToken 0 0
           (tokenRequest\<lparr>hdr_origin := None\<rparr>) emptyState) = Some 200"
proof -
  have a: "allowedOrigins sampleConfig \<noteq> []" by (simp add: sampleConfig_def)
  have host: "isHostAllowed sampleURL sampleConfig (hdr_host (tokenRequest\<lparr>hdr_origin := None\<rparr>))"
    by (simp add: isHostAllowed_def extractHostname_def sampleURL_def sampleConfig_def
        tokenRequest_def viewerOrigin_def toLowerCase_def)
  have up: "upgrade sampleURL sampleConfig 1000 (upgradeRequest\<lparr>hdr_origin := None\<rparr>) storedState
       = (Rejected 403 ''Origin not allowed'', storedState)"
    using upgrade_without_origin_rejected[OF a, of "upgradeRequest\<lparr>hdr_origin := None\<rparr>"
        sampleURL 1000 storedState]
    by simp
  have allowed: "isSessionRequestAllowed sampleURL sampleConfig (tokenRequest\<lparr>hdr_origin := None\<rparr>) None"
    using upgrade_without_origin_rejected[OF a, of "tokenRequest\<lparr>hdr_origin := None\<rparr>"
        sampleURL 1000 storedState] host
    by simp
  have ok: "map_option (statusCode \<circ> fst)
        (requestHandler sampleURL sampleConfig sampleToken 0 0
           (tokenRequest\<lparr>hdr_origin := None\<rparr>) emptyState) = Some 200"
    using allowed
    by (simp add: requestHandler_def requestUrlOf_def setCorsHeaders_def truthy_def
        issueSessionToken_def Let_def tokenRequest_def sampleURL_def)
  from a up allowed ok show ?thesis by simp
qed

end
